theory Spec2Isabelle
  imports Main
begin

section \<open>The dependency injection container of \<^verbatim>\<open>include/Container.hpp\<close>\<close>

text \<open>
  The model follows the header function by function. It is sequential, as the source is.
  Left out: copying, moving and destroying a \<^verbatim>\<open>Container\<close>, explicit specialisations of
  \<^verbatim>\<open>CreateInstance\<close> (the primary template is modelled), producers that throw, allocation
  failure, and an empty \<^verbatim>\<open>std::function\<close>.

  Also left out are the two overloads that take a
  \<^verbatim>\<open>std::function<std::shared_ptr<Type>(const Container&)>\<close> (lines 115 to 124 and 131 to
  141). Their lambdas capture \<^verbatim>\<open>[creator]\<close> only and then name \<^verbatim>\<open>*this\<close>; that is ill-formed,
  so a program that calls either of them has no translation and these overloads have no
  behaviour to model. Six of the eight registration functions remain.
\<close>

subsection \<open>Type identities, handles and type-erased values\<close>

text \<open>
  \<^verbatim>\<open>typeid(T)\<close> gives a \<^verbatim>\<open>std::type_info\<close>; the container reads its \<^verbatim>\<open>name()\<close> and its
  \<^verbatim>\<open>hash_code()\<close>. Equal types have equal names and hash codes; two different types may
  share a hash code, so a type is the pair and the map key is only its second component.
\<close>

datatype type_info = TypeInfo (name: string) (hash_code: nat)

text \<open>
  A \<^verbatim>\<open>std::shared_ptr<T>\<close> is \<^verbatim>\<open>nullptr\<close> or the address of the object it manages; the
  address is the identity of the instance. A \<^verbatim>\<open>std::any\<close> produced by a creator holds a
  \<^verbatim>\<open>std::shared_ptr<T>\<close> and remembers \<open>T\<close>.
\<close>

datatype handle = Null | Ptr nat

datatype any = Any type_info handle

datatype error =
    BadAnyCast            \<comment> \<open>\<^verbatim>\<open>std::bad_any_cast\<close>, thrown by \<^verbatim>\<open>std::any_cast\<close>\<close>
  | OutOfRange            \<comment> \<open>\<^verbatim>\<open>std::out_of_range\<close>, thrown by \<^verbatim>\<open>std::map::at\<close>\<close>
  | RuntimeError string   \<comment> \<open>\<^verbatim>\<open>std::runtime_error\<close> with its message\<close>

text \<open>
  An object on the heap is described by its dynamic type and by the constructor call that
  built it: \<^verbatim>\<open>std::make_shared<D>()\<close> runs the default constructor,
  \<^verbatim>\<open>std::make_shared<Type>(instance)\<close> runs the constructor of \<open>Type\<close> that takes a
  \<^verbatim>\<open>std::shared_ptr<Type>\<close>, and code supplied by the caller builds objects from a value
  and the handles it was given. A copy of an object is an object equal to it.
\<close>

datatype ctor_args =
    DefaultCtor
  | FromPtr handle
  | UserArgs int "handle list"

datatype object = Obj type_info ctor_args

subsection \<open>Producers supplied by the caller\<close>

text \<open>
  The functions passed to \<^verbatim>\<open>AddTransient\<close> and \<^verbatim>\<open>AddSingleton\<close> are code of the embedding
  application. The model covers the following family of
  \<^verbatim>\<open>std::function<std::shared_ptr<Type>()>\<close>: one that returns \<^verbatim>\<open>nullptr\<close>, one that returns
  a pointer it holds, and one that returns \<^verbatim>\<open>std::make_shared<D>(v, hs...)\<close>. None of them
  throws or calls the container.
\<close>

datatype factory =
    ReturnsNull
  | ReturnsHeld handle
  | MakesShared type_info int "handle list"

subsection \<open>Creators, program state and container state\<close>

text \<open>
  The values of \<^verbatim>\<open>_services\<close> are \<^verbatim>\<open>std::function<std::any()>\<close> closures. Each constructor
  below is one of the lambdas of the source, with what it captures.
\<close>

datatype creator =
    TransientCreator type_info type_info   \<comment> \<open>\<^verbatim>\<open>GetTransientCreator<Base, Derived>()\<close>\<close>
  | SingletonCreator type_info type_info   \<comment> \<open>\<^verbatim>\<open>GetSingletonCreator<Base, Derived>()\<close>\<close>
  | InstanceCopier type_info handle        \<comment> \<open>lambda of \<^verbatim>\<open>AddTransient(instance)\<close>\<close>
  | InstanceHolder type_info handle        \<comment> \<open>lambda of \<^verbatim>\<open>AddSingleton(instance)\<close>\<close>
  | TransientFactory type_info factory     \<comment> \<open>the creator given to \<^verbatim>\<open>AddTransient(creator)\<close>\<close>
  | SingletonFactory type_info factory     \<comment> \<open>lambda of \<^verbatim>\<open>AddSingleton(creator)\<close>\<close>

text \<open>
  The singleton lambda that wraps a caller's function (lines 102 to 106) keeps its result
  in \<^verbatim>\<open>static auto instance\<close>. A function-local static belongs to the lambda's call
  operator, and there is one such lambda per instantiation of the enclosing member
  template: one slot per \<open>Type\<close> for the whole program, whatever the container.
\<close>

datatype slot = FactorySlot type_info

text \<open>
  The trace is a ghost record of every run of a producer: a call of \<^verbatim>\<open>CreateInstance\<close>, a
  construction from a registered instance, a call of a caller's function.
\<close>

datatype event =
    CreateInstanceCalled type_info type_info
  | InstanceCopied type_info handle
  | FactoryCalled type_info factory

record globals =
  heap :: "nat \<rightharpoonup> object"
  fresh :: nat
  statics :: "slot \<rightharpoonup> handle"
  trace :: "event list"

record container =
  services :: "nat \<rightharpoonup> creator"
  singletons :: "nat \<rightharpoonup> any"

type_synonym state = "globals \<times> container"

text \<open>
  A call ends in \<open>(Inl e, s)\<close> when it throws \<open>e\<close> and in \<open>(Inr v, s)\<close> when it returns
  \<open>v\<close>, with the state \<open>s\<close> it leaves. No creator of the model calls the container again, so
  every call ends and the functions below are total.
\<close>

type_synonym 'a result = "(error + 'a) \<times> state"

definition new_program :: globals where
  "new_program = \<lparr>heap = Map.empty, fresh = 0, statics = Map.empty, trace = []\<rparr>"

definition new_container :: container where
  "new_container = \<lparr>services = Map.empty, singletons = Map.empty\<rparr>"

subsection \<open>Library primitives\<close>

text \<open>
  \<^verbatim>\<open>std::make_shared\<close> allocates at an address that no live object has. Objects are never
  freed in the model: the caller keeps every handle it was given.
\<close>

definition make_shared :: "object \<Rightarrow> globals \<Rightarrow> handle \<times> globals" where
  "make_shared ob g =
     (Ptr (fresh g), g\<lparr>heap := (heap g)(fresh g \<mapsto> ob), fresh := Suc (fresh g)\<rparr>)"

text \<open>\<^verbatim>\<open>std::map::emplace\<close> inserts only when the key is absent.\<close>

definition emplace :: "nat \<Rightarrow> 'v \<Rightarrow> (nat \<rightharpoonup> 'v) \<Rightarrow> (nat \<rightharpoonup> 'v)" where
  "emplace k v m = (case m k of None \<Rightarrow> m(k \<mapsto> v) | Some _ \<Rightarrow> m)"

text \<open>
  \<^verbatim>\<open>std::any_cast<std::shared_ptr<Base>>(a)\<close> returns the held pointer when \<open>a\<close> holds a
  \<^verbatim>\<open>std::shared_ptr<Base>\<close> and throws \<^verbatim>\<open>std::bad_any_cast\<close> otherwise.
\<close>

fun any_cast :: "type_info \<Rightarrow> any \<Rightarrow> error + handle" where
  "any_cast Base (Any t h) = (if t = Base then Inr h else Inl BadAnyCast)"

definition log :: "event \<Rightarrow> globals \<Rightarrow> globals" where
  "log e g = g\<lparr>trace := trace g @ [e]\<rparr>"

subsection \<open>Running the caller's producers\<close>

fun run_factory :: "factory \<Rightarrow> globals \<Rightarrow> handle \<times> globals" where
  "run_factory ReturnsNull g = (Null, g)"
| "run_factory (ReturnsHeld h) g = (h, g)"
| "run_factory (MakesShared D v hs) g = make_shared (Obj D (UserArgs v hs)) g"

subsection \<open>The creators of the container\<close>

text \<open>
  \<^verbatim>\<open>CreateInstance<Base, Derived>(container)\<close>, the primary template: the container is not
  used and the result is \<^verbatim>\<open>std::make_shared<Derived>()\<close>.
\<close>

definition CreateInstance :: "type_info \<Rightarrow> type_info \<Rightarrow> globals \<Rightarrow> handle \<times> globals" where
  "CreateInstance Base Derived g =
     make_shared (Obj Derived DefaultCtor) (log (CreateInstanceCalled Base Derived) g)"

text \<open>The body of the lambda returned by \<^verbatim>\<open>GetTransientCreator<Base, Derived>()\<close>.\<close>

definition GetTransientCreator :: "type_info \<Rightarrow> type_info \<Rightarrow> globals \<Rightarrow> any \<times> globals" where
  "GetTransientCreator Base Derived g =
     (let (h, g') = CreateInstance Base Derived g in (Any Base h, g'))"

text \<open>
  The body of the lambda returned by \<^verbatim>\<open>GetSingletonCreator<Base, Derived>()\<close>: look the key
  up in \<^verbatim>\<open>_singletons\<close>, create and \<^verbatim>\<open>emplace\<close> when it is absent, return
  \<^verbatim>\<open>_singletons.at(key)\<close>. The lambda captures \<^verbatim>\<open>this\<close>; containers are not copied in the
  model, so \<^verbatim>\<open>this\<close> is the container that stores the lambda.
\<close>

definition GetSingletonCreator :: "type_info \<Rightarrow> type_info \<Rightarrow> state \<Rightarrow> any result" where
  "GetSingletonCreator Base Derived s =
     (let key = hash_code Base;
          (g1, c1) =
            (case singletons (snd s) key of
               None \<Rightarrow>
                 (let (singletonService, g') = GetTransientCreator Base Derived (fst s)
                  in (g', (snd s)\<lparr>singletons := emplace key singletonService (singletons (snd s))\<rparr>))
             | Some _ \<Rightarrow> s)
      in (case singletons c1 key of
            None \<Rightarrow> (Inl OutOfRange, g1, c1)
          | Some a \<Rightarrow> (Inr a, g1, c1)))"

text \<open>
  Calling a stored \<^verbatim>\<open>std::function<std::any()>\<close>: the body of each lambda. A lambda that
  returns a \<^verbatim>\<open>std::shared_ptr<Type>\<close> is wrapped into a function returning \<^verbatim>\<open>std::any\<close>, so
  its result arrives as an \<^verbatim>\<open>any\<close> holding a \<^verbatim>\<open>std::shared_ptr<Type>\<close>.
\<close>

fun invoke :: "creator \<Rightarrow> state \<Rightarrow> any result" where
  "invoke (TransientCreator Base Derived) (g, c) =
     (let (a, g') = GetTransientCreator Base Derived g in (Inr a, g', c))"
| "invoke (SingletonCreator Base Derived) (g, c) = GetSingletonCreator Base Derived (g, c)"
| "invoke (InstanceCopier Type instance) (g, c) =
     (let (h, g') = make_shared (Obj Type (FromPtr instance)) (log (InstanceCopied Type instance) g)
      in (Inr (Any Type h), g', c))"
| "invoke (InstanceHolder Type instance) (g, c) = (Inr (Any Type instance), g, c)"
| "invoke (TransientFactory Type f) (g, c) =
     (let (h, g') = run_factory f (log (FactoryCalled Type f) g)
      in (Inr (Any Type h), g', c))"
| "invoke (SingletonFactory Type f) (g, c) =
     (case statics g (FactorySlot Type) of
        Some instance \<Rightarrow> (Inr (Any Type instance), g, c)
      | None \<Rightarrow>
          (let (instance, g') = run_factory f (log (FactoryCalled Type f) g)
           in (Inr (Any Type instance),
               g'\<lparr>statics := (statics g')(FactorySlot Type \<mapsto> instance)\<rparr>, c)))"

subsection \<open>Resolution\<close>

text \<open>\<^verbatim>\<open>GetService<Base>()\<close>, lines 147 to 158.\<close>

definition GetService :: "type_info \<Rightarrow> state \<Rightarrow> handle result" where
  "GetService Base s =
     (let key = hash_code Base in
      case services (snd s) key of
        Some it \<Rightarrow>
          (case invoke it s of
             (Inl e, s') \<Rightarrow> (Inl e, s')
           | (Inr a, s') \<Rightarrow> (any_cast Base a, s'))
      | None \<Rightarrow> (Inr Null, s))"

text \<open>\<^verbatim>\<open>GetRequiredService<Base>()\<close>, lines 165 to 174.\<close>

definition GetRequiredService :: "type_info \<Rightarrow> state \<Rightarrow> handle result" where
  "GetRequiredService Base s =
     (case GetService Base s of
        (Inl e, s') \<Rightarrow> (Inl e, s')
      | (Inr service, s') \<Rightarrow>
          (if service = Null
           then (Inl (RuntimeError (''No implementation registered for '' @ name Base)), s')
           else (Inr service, s')))"

subsection \<open>Registration\<close>

text \<open>
  Both overloads of \<^verbatim>\<open>AddService\<close> compute the key from their first template argument and
  \<^verbatim>\<open>emplace\<close> the creator. The \<^verbatim>\<open>static_assert\<close> of the first is a compile-time check.
\<close>

definition AddService :: "type_info \<Rightarrow> creator \<Rightarrow> state \<Rightarrow> state" where
  "AddService Base serviceCreator s =
     (let key = hash_code Base
      in (fst s, (snd s)\<lparr>services := emplace key serviceCreator (services (snd s))\<rparr>))"

definition AddTransient :: "type_info \<Rightarrow> type_info \<Rightarrow> state \<Rightarrow> state" where
  "AddTransient Base Derived = AddService Base (TransientCreator Base Derived)"

definition AddSingleton :: "type_info \<Rightarrow> type_info \<Rightarrow> state \<Rightarrow> state" where
  "AddSingleton Base Derived = AddService Base (SingletonCreator Base Derived)"

definition AddTransient_instance :: "type_info \<Rightarrow> handle \<Rightarrow> state \<Rightarrow> state" where
  "AddTransient_instance Type instance = AddService Type (InstanceCopier Type instance)"

definition AddSingleton_instance :: "type_info \<Rightarrow> handle \<Rightarrow> state \<Rightarrow> state" where
  "AddSingleton_instance Type instance = AddService Type (InstanceHolder Type instance)"

definition AddTransient_creator :: "type_info \<Rightarrow> factory \<Rightarrow> state \<Rightarrow> state" where
  "AddTransient_creator Type creator = AddService Type (TransientFactory Type creator)"

definition AddSingleton_creator :: "type_info \<Rightarrow> factory \<Rightarrow> state \<Rightarrow> state" where
  "AddSingleton_creator Type creator = AddService Type (SingletonFactory Type creator)"

text \<open>
  A registration call with its arguments, so that statements can range over all six
  shapes and over sequences of calls.
\<close>

datatype registration =
    Call_AddTransient type_info type_info
  | Call_AddSingleton type_info type_info
  | Call_AddTransient_instance type_info handle
  | Call_AddSingleton_instance type_info handle
  | Call_AddTransient_creator type_info factory
  | Call_AddSingleton_creator type_info factory

fun register :: "registration \<Rightarrow> state \<Rightarrow> state" where
  "register (Call_AddTransient Base Derived) s = AddTransient Base Derived s"
| "register (Call_AddSingleton Base Derived) s = AddSingleton Base Derived s"
| "register (Call_AddTransient_instance Type instance) s = AddTransient_instance Type instance s"
| "register (Call_AddSingleton_instance Type instance) s = AddSingleton_instance Type instance s"
| "register (Call_AddTransient_creator Type f) s = AddTransient_creator Type f s"
| "register (Call_AddSingleton_creator Type f) s = AddSingleton_creator Type f s"

text \<open>The abstract type a registration call is for, and the creator it stores.\<close>

fun registered_type :: "registration \<Rightarrow> type_info" where
  "registered_type (Call_AddTransient Base Derived) = Base"
| "registered_type (Call_AddSingleton Base Derived) = Base"
| "registered_type (Call_AddTransient_instance Type instance) = Type"
| "registered_type (Call_AddSingleton_instance Type instance) = Type"
| "registered_type (Call_AddTransient_creator Type f) = Type"
| "registered_type (Call_AddSingleton_creator Type f) = Type"

fun registered_creator :: "registration \<Rightarrow> creator" where
  "registered_creator (Call_AddTransient Base Derived) = TransientCreator Base Derived"
| "registered_creator (Call_AddSingleton Base Derived) = SingletonCreator Base Derived"
| "registered_creator (Call_AddTransient_instance Type instance) = InstanceCopier Type instance"
| "registered_creator (Call_AddSingleton_instance Type instance) = InstanceHolder Type instance"
| "registered_creator (Call_AddTransient_creator Type f) = TransientFactory Type f"
| "registered_creator (Call_AddSingleton_creator Type f) = SingletonFactory Type f"

text \<open>The type whose \<^verbatim>\<open>std::shared_ptr\<close> a creator puts into the \<^verbatim>\<open>std::any\<close> it returns.\<close>

fun creator_type :: "creator \<Rightarrow> type_info" where
  "creator_type (TransientCreator Base Derived) = Base"
| "creator_type (SingletonCreator Base Derived) = Base"
| "creator_type (InstanceCopier Type instance) = Type"
| "creator_type (InstanceHolder Type instance) = Type"
| "creator_type (TransientFactory Type f) = Type"
| "creator_type (SingletonFactory Type f) = Type"

subsection \<open>Programs that use several containers\<close>

text \<open>
  A program owns the globals and a list of containers, and makes calls on them one after
  the other; the containers share the heap and the function-local statics. The result is
  the list of what the resolutions returned or threw; a call on a container that does not
  exist makes the program meaningless (\<open>None\<close>).
\<close>

datatype call =
    Register nat registration
  | Resolve nat type_info
  | ResolveRequired nat type_info

type_synonym program = "globals \<times> container list"

fun run_calls :: "call list \<Rightarrow> program \<Rightarrow> ((error + handle) list \<times> program) option" where
  "run_calls [] p = Some ([], p)"
| "run_calls (Register i r # cs) (g, ks) =
     (if i < length ks
      then (let (g', k') = register r (g, ks ! i) in run_calls cs (g', ks[i := k']))
      else None)"
| "run_calls (Resolve i T # cs) (g, ks) =
     (if i < length ks
      then (let (r, g', k') = GetService T (g, ks ! i)
            in case run_calls cs (g', ks[i := k']) of
                 None \<Rightarrow> None
               | Some (rs, p) \<Rightarrow> Some (r # rs, p))
      else None)"
| "run_calls (ResolveRequired i T # cs) (g, ks) =
     (if i < length ks
      then (let (r, g', k') = GetRequiredService T (g, ks ! i)
            in case run_calls cs (g', ks[i := k']) of
                 None \<Rightarrow> None
               | Some (rs, p) \<Rightarrow> Some (r # rs, p))
      else None)"

definition results :: "((error + handle) list \<times> program) option \<Rightarrow> (error + handle) list option" where
  "results r = map_option fst r"

definition final_trace :: "((error + handle) list \<times> program) option \<Rightarrow> event list option" where
  "final_trace r = map_option (\<lambda>(rs, g, ks). trace g) r"

definition final_heap :: "((error + handle) list \<times> program) option \<Rightarrow> nat \<Rightarrow> object option" where
  "final_heap r a = (case r of None \<Rightarrow> None | Some (rs, g, ks) \<Rightarrow> heap g a)"

text \<open>How often an event occurs in a trace.\<close>

definition occurrences :: "event \<Rightarrow> event list \<Rightarrow> nat" where
  "occurrences e es = length (filter (\<lambda>x. x = e) es)"

text \<open>\<open>N\<close> consecutive \<^verbatim>\<open>GetService<T>()\<close> calls on one container, with what each returned.\<close>

fun consecutive :: "nat \<Rightarrow> type_info \<Rightarrow> state \<Rightarrow> (error + handle) list \<times> state" where
  "consecutive 0 T s = ([], s)"
| "consecutive (Suc N) T s =
     (let (r, s') = GetService T s; (rs, s'') = consecutive N T s' in (r # rs, s''))"

subsection \<open>Classification of creators\<close>

text \<open>The lambdas stored by the \<^verbatim>\<open>AddTransient\<close> and by the \<^verbatim>\<open>AddSingleton\<close> overloads.\<close>

fun is_transient :: "creator \<Rightarrow> bool" where
  "is_transient (TransientCreator Base Derived) = True"
| "is_transient (InstanceCopier Type instance) = True"
| "is_transient (TransientFactory Type f) = True"
| "is_transient _ = False"


text \<open>The transient creators whose every run ends in a \<^verbatim>\<open>std::make_shared\<close>.\<close>

fun allocating :: "creator \<Rightarrow> bool" where
  "allocating (TransientCreator Base Derived) = True"
| "allocating (InstanceCopier Type instance) = True"
| "allocating (TransientFactory Type (MakesShared D v hs)) = True"
| "allocating _ = False"

text \<open>
  The event a creator leaves in the trace when its producer runs. The lambda of
  \<^verbatim>\<open>AddSingleton(instance)\<close> has no producer: the instance was built before registration.
\<close>

fun producer_event :: "creator \<Rightarrow> event option" where
  "producer_event (TransientCreator Base Derived) = Some (CreateInstanceCalled Base Derived)"
| "producer_event (SingletonCreator Base Derived) = Some (CreateInstanceCalled Base Derived)"
| "producer_event (InstanceCopier Type instance) = Some (InstanceCopied Type instance)"
| "producer_event (InstanceHolder Type instance) = None"
| "producer_event (TransientFactory Type f) = Some (FactoryCalled Type f)"
| "producer_event (SingletonFactory Type f) = Some (FactoryCalled Type f)"


subsection \<open>Invariants of resolution\<close>

text \<open>
  What every call leaves alone: the registrations stay, addresses are only handed out
  upwards, and the trace only grows.
\<close>

definition extends :: "state \<Rightarrow> state \<Rightarrow> bool" where
  "extends s s' \<longleftrightarrow>
     services (snd s') = services (snd s) \<and> fresh (fst s) \<le> fresh (fst s') \<and>
     (\<exists>es. trace (fst s') = trace (fst s) @ es)"

text \<open>
  A container is consistent when every creator is stored under the key of the type it
  produces, and every cached singleton was produced by the \<^verbatim>\<open>GetSingletonCreator\<close> lambda
  stored under its key. The empty container is, and registration and resolution keep it.
\<close>

definition consistent :: "container \<Rightarrow> bool" where
  "consistent c \<longleftrightarrow>
     (\<forall>k cr. services c k = Some cr \<longrightarrow> hash_code (creator_type cr) = k) \<and>
     (\<forall>k t h. singletons c k = Some (Any t h) \<longrightarrow>
        (\<exists>D. services c k = Some (SingletonCreator t D)))"

subsection \<open>Example types, producers and programs\<close>

definition IService :: type_info where
  "IService = TypeInfo ''IService'' 7"

definition ServiceA :: type_info where
  "ServiceA = TypeInfo ''ServiceA'' 1"

definition ServiceB :: type_info where
  "ServiceB = TypeInfo ''ServiceB'' 2"

text \<open>A type whose hash code is that of \<open>IService\<close>.\<close>

definition ILogger :: type_info where
  "ILogger = TypeInfo ''ILogger'' 7"

definition makeA :: factory where
  "makeA = MakesShared ServiceA 1 []"

definition makeB :: factory where
  "makeB = MakesShared ServiceB 2 []"

definition one_container :: program where
  "one_container = (new_program, [new_container])"

definition two_containers :: program where
  "two_containers = (new_program, [new_container, new_container])"

text \<open>A program in which the caller has already built a \<open>ServiceA\<close> at address 0.\<close>

definition with_instance :: program where
  "with_instance = (snd (make_shared (Obj ServiceA (UserArgs 42 [])) new_program), [new_container])"

text \<open>Two containers, each registering its own singleton factory for \<open>IService\<close>.\<close>

definition register_both_factories :: "call list" where
  "register_both_factories =
     [Register 0 (Call_AddSingleton_creator IService makeA),
      Register 1 (Call_AddSingleton_creator IService makeB)]"

section \<open>Properties\<close>

subsection \<open>Unfolding the definitions\<close>

lemmas registration_defs =
  AddService_def AddTransient_def AddSingleton_def AddTransient_instance_def
  AddSingleton_instance_def AddTransient_creator_def AddSingleton_creator_def

lemmas resolution_defs =
  emplace_def make_shared_def log_def CreateInstance_def GetTransientCreator_def
  GetSingletonCreator_def GetService_def GetRequiredService_def Let_def

lemma register_eq: "register r s = AddService (registered_type r) (registered_creator r) s"
  by (cases r) (simp_all add: registration_defs)

lemma creator_type_registered: "creator_type (registered_creator r) = registered_type r"
  by (cases r) simp_all

lemma any_cast_Inr: "any_cast T a = Inr h \<Longrightarrow> a = Any T h"
  by (cases a) (auto split: if_splits)

text \<open>A resolution of a registered type is one call of the stored creator and one cast.\<close>

lemma GetService_registered:
  assumes "services c (hash_code T) = Some cr"
  shows "GetService T (g, c) =
           (case invoke cr (g, c) of
              (Inl e, s') \<Rightarrow> (Inl e, s')
            | (Inr a, s') \<Rightarrow> (any_cast T a, s'))"
  using assms by (simp add: GetService_def)

subsection \<open>Resolution keeps the registrations, the addresses in use and the trace\<close>

lemma extends_refl: "extends s s"
  by (simp add: extends_def)

lemma extends_services: "extends (g, c) (g', c') \<Longrightarrow> services c' = services c"
  by (simp add: extends_def)

lemma run_factory_trace: "run_factory f g = (h, g') \<Longrightarrow> trace g' = trace g"
  by (cases f) (auto simp: make_shared_def)

lemma run_factory_fresh: "run_factory f g = (h, g') \<Longrightarrow> fresh g \<le> fresh g'"
  by (cases f) (auto simp: make_shared_def)

lemma invoke_extends:
  assumes run: "invoke cr s = (r, s')"
  shows "extends s s'"
proof -
  obtain g c where s: "s = (g, c)" by (cases s) auto
  show ?thesis
  proof (cases cr)
    case (TransientCreator Base Derived)
    with run s show ?thesis
      by (auto simp: GetTransientCreator_def CreateInstance_def extends_def make_shared_def
            log_def split: prod.splits)
  next
    case (SingletonCreator Base Derived)
    with run s show ?thesis
      by (auto simp: GetSingletonCreator_def GetTransientCreator_def CreateInstance_def Let_def
            extends_def make_shared_def log_def split: option.splits prod.splits)
  next
    case (InstanceCopier Type inst)
    with run s show ?thesis
      by (auto simp: extends_def make_shared_def log_def split: prod.splits)
  next
    case (InstanceHolder Type inst)
    with run s show ?thesis by (auto simp: extends_refl)
  next
    case (TransientFactory Type f)
    with run s show ?thesis
      by (auto simp: extends_def log_def split: prod.splits
            dest: run_factory_trace run_factory_fresh)
  next
    case (SingletonFactory Type f)
    with run s show ?thesis
      by (auto simp: extends_def log_def split: prod.splits option.splits
            dest: run_factory_trace run_factory_fresh)
  qed
qed

lemma GetService_extends: "GetService T s = (r, s') \<Longrightarrow> extends s s'"
  by (cases "invoke (the (services (snd s) (hash_code T))) s")
    (auto simp: GetService_def Let_def extends_refl
       split: option.splits sum.splits prod.splits dest: invoke_extends)

subsection \<open>What a transient creator does on each run\<close>

lemma invoke_transient_runs:
  assumes tr: "is_transient cr"
      and run: "invoke cr (g, c) = (r, g', c')"
  shows "\<exists>e. producer_event cr = Some e \<and> trace g' = trace g @ [e]"
proof (cases cr)
  case (TransientCreator Base Derived)
  with run show ?thesis
    by (auto simp: GetTransientCreator_def CreateInstance_def make_shared_def log_def
          split: prod.splits)
next
  case (InstanceCopier Type inst)
  with run show ?thesis
    by (auto simp: make_shared_def log_def split: prod.splits)
next
  case (TransientFactory Type f)
  with run obtain h where "run_factory f (log (FactoryCalled Type f) g) = (h, g')"
    by (auto split: prod.splits)
  then have "trace g' = trace (log (FactoryCalled Type f) g)" by (rule run_factory_trace)
  then show ?thesis using TransientFactory by (simp add: log_def)
qed (use tr in simp_all)

lemma allocating_returns:
  assumes reg: "services c (hash_code T) = Some cr" and ctype: "creator_type cr = T"
      and alloc: "allocating cr"
  shows "\<exists>g'. GetService T (g, c) = (Inr (Ptr (fresh g)), g', c) \<and> fresh g' = Suc (fresh g)"
proof (cases cr)
  case (TransientCreator Base Derived)
  with reg ctype show ?thesis
    by (simp add: GetService_def GetTransientCreator_def CreateInstance_def make_shared_def
          log_def)
next
  case (InstanceCopier Type inst)
  with reg ctype show ?thesis
    by (simp add: GetService_def make_shared_def log_def)
next
  case (TransientFactory Type f)
  with reg ctype alloc show ?thesis
    by (cases f) (simp_all add: GetService_def make_shared_def log_def)
qed (use alloc in simp_all)

subsection \<open>Consistency of the container\<close>

lemma consistent_keyed:
  "consistent c \<Longrightarrow> services c k = Some cr \<Longrightarrow> k = hash_code (creator_type cr)"
  unfolding consistent_def by blast

lemma consistent_cached:
  "consistent c \<Longrightarrow> singletons c k = Some (Any t h)
   \<Longrightarrow> \<exists>D. services c k = Some (SingletonCreator t D)"
  unfolding consistent_def by blast

lemma consistent_new_container: "consistent new_container"
  by (simp add: consistent_def new_container_def)

lemma consistent_AddService:
  assumes ok: "consistent c" and key: "creator_type cr = Base"
  shows "consistent (c\<lparr>services := emplace (hash_code Base) cr (services c)\<rparr>)"
proof (cases "services c (hash_code Base)")
  case None
  have cached: "singletons c (hash_code Base) = None"
  proof (cases "singletons c (hash_code Base)")
    case (Some a)
    then show ?thesis
      using consistent_cached [OF ok, of "hash_code Base"] None by (cases a) auto
  qed simp
  have eq: "emplace (hash_code Base) cr (services c) = (services c)(hash_code Base \<mapsto> cr)"
    using None by (simp add: emplace_def)
  show ?thesis
    unfolding consistent_def eq
    using consistent_keyed [OF ok] consistent_cached [OF ok] key cached by auto
next
  case (Some old)
  then have "emplace (hash_code Base) cr (services c) = services c"
    by (simp add: emplace_def)
  with ok show ?thesis by simp
qed

lemma consistent_register: "consistent (snd s) \<Longrightarrow> consistent (snd (register r s))"
  by (simp add: register_eq AddService_def Let_def consistent_AddService
        creator_type_registered)

lemma GetSingletonCreator_consistent:
  assumes run: "GetSingletonCreator Base Derived (g, c) = (r, g', c')"
      and reg: "services c (hash_code Base) = Some (SingletonCreator Base Derived)"
      and ok: "consistent c"
  shows "consistent c'"
proof (cases "singletons c (hash_code Base)")
  case None
  with run have c':
    "c' = c\<lparr>singletons := (singletons c)(hash_code Base \<mapsto> Any Base (Ptr (fresh g)))\<rparr>"
    by (auto simp: GetSingletonCreator_def GetTransientCreator_def CreateInstance_def Let_def
          make_shared_def log_def emplace_def split: option.splits prod.splits)
  show ?thesis
    unfolding consistent_def c'
    using consistent_keyed [OF ok] consistent_cached [OF ok] reg by auto
next
  case (Some a)
  with run have "c' = c"
    by (auto simp: GetSingletonCreator_def Let_def split: option.splits prod.splits)
  with ok show ?thesis by simp
qed

lemma invoke_consistent:
  assumes run: "invoke cr (g, c) = (r, g', c')"
      and reg: "services c k = Some cr"
      and ok: "consistent c"
  shows "consistent c'"
proof (cases cr)
  case (TransientCreator Base Derived)
  with run ok show ?thesis by (auto split: prod.splits)
next
  case (SingletonCreator Base Derived)
  with reg ok have "k = hash_code Base" by (auto dest: consistent_keyed)
  with run reg ok SingletonCreator show ?thesis
    by (auto dest: GetSingletonCreator_consistent)
next
  case (InstanceCopier Type inst)
  with run ok show ?thesis by (auto split: prod.splits)
next
  case (InstanceHolder Type inst)
  with run ok show ?thesis by auto
next
  case (TransientFactory Type f)
  with run ok show ?thesis by (auto split: prod.splits)
next
  case (SingletonFactory Type f)
  with run ok show ?thesis by (auto split: prod.splits option.splits)
qed

lemma GetService_consistent:
  assumes run: "GetService T s = (r, s')" and ok: "consistent (snd s)"
  shows "consistent (snd s')"
proof -
  obtain g c where s: "s = (g, c)" by (cases s) auto
  obtain g' c' where s': "s' = (g', c')" by (cases s') auto
  show ?thesis
  proof (cases "services c (hash_code T)")
    case None
    with run ok s show ?thesis by (simp add: GetService_def)
  next
    case (Some it)
    with run s s' obtain r0 where "invoke it (g, c) = (r0, g', c')"
      by (auto simp: GetService_def Let_def split: sum.splits prod.splits)
    then show ?thesis using invoke_consistent [OF _ Some] ok s s' by auto
  qed
qed

lemma GetRequiredService_consistent:
  "GetRequiredService T s = (r, s') \<Longrightarrow> consistent (snd s) \<Longrightarrow> consistent (snd s')"
  by (auto simp: GetRequiredService_def split: sum.splits prod.splits if_splits
        dest: GetService_consistent)

lemma list_all_update: "list_all P xs \<Longrightarrow> P x \<Longrightarrow> list_all P (xs[i := x])"
  by (induction xs arbitrary: i) (auto split: nat.splits)

text \<open>Whatever a program calls, containers that were consistent stay so.\<close>

lemma run_calls_consistent:
  "run_calls cs (g, ks) = Some (rs, g', ks') \<Longrightarrow> list_all consistent ks
   \<Longrightarrow> list_all consistent ks'"
proof (induction cs "(g, ks)" arbitrary: g ks rs rule: run_calls.induct)
  case 1
  then show ?case by simp
next
  case (2 i r cs g ks)
  show ?case
  proof (cases "i < length ks")
    case False
    with "2.prems" show ?thesis by simp
  next
    case True
    obtain g1 k1 where reg: "register r (g, ks ! i) = (g1, k1)"
      by (cases "register r (g, ks ! i)") auto
    from "2.prems"(2) True have "consistent (ks ! i)" by (simp add: list_all_length)
    then have "consistent k1" using consistent_register [of "(g, ks ! i)" r] reg by simp
    then have ok: "list_all consistent (ks[i := k1])"
      using "2.prems"(2) by (simp add: list_all_update)
    from "2.prems"(1) True reg have "run_calls cs (g1, ks[i := k1]) = Some (rs, g', ks')"
      by simp
    then show ?thesis using "2.hyps" [OF True reg [symmetric] refl] ok by blast
  qed
next
  case (3 i T cs g ks)
  show ?case
  proof (cases "i < length ks")
    case False
    with "3.prems" show ?thesis by simp
  next
    case True
    obtain r g1 k1 where get: "GetService T (g, ks ! i) = (r, g1, k1)"
      by (cases "GetService T (g, ks ! i)") auto
    with "3.prems"(1) True obtain rs1
      where rest: "run_calls cs (g1, ks[i := k1]) = Some (rs1, g', ks')"
      by (auto split: option.splits prod.splits)
    from "3.prems"(2) True have "consistent (ks ! i)" by (simp add: list_all_length)
    then have "consistent k1" using GetService_consistent [OF get] by simp
    then have ok: "list_all consistent (ks[i := k1])"
      using "3.prems"(2) by (simp add: list_all_update)
    show ?thesis using "3.hyps" [OF True refl get [symmetric] refl rest ok] .
  qed
next
  case (4 i T cs g ks)
  show ?case
  proof (cases "i < length ks")
    case False
    with "4.prems" show ?thesis by simp
  next
    case True
    obtain r g1 k1 where get: "GetRequiredService T (g, ks ! i) = (r, g1, k1)"
      by (cases "GetRequiredService T (g, ks ! i)") auto
    with "4.prems"(1) True obtain rs1
      where rest: "run_calls cs (g1, ks[i := k1]) = Some (rs1, g', ks')"
      by (auto split: option.splits prod.splits)
    from "4.prems"(2) True have "consistent (ks ! i)" by (simp add: list_all_length)
    then have "consistent k1" using GetRequiredService_consistent [OF get] by simp
    then have ok: "list_all consistent (ks[i := k1])"
      using "4.prems"(2) by (simp add: list_all_update)
    show ?thesis using "4.hyps" [OF True refl get [symmetric] refl rest ok] .
  qed
qed

text \<open>In a consistent container a creator returns a pointer of the type it was stored for.\<close>

lemma invoke_type:
  assumes run: "invoke cr (g, c) = (Inr (Any t h), s')"
      and reg: "services c k = Some cr"
      and ok: "consistent c"
  shows "t = creator_type cr"
proof (cases cr)
  case (SingletonCreator Base Derived)
  with reg ok have k: "k = hash_code Base" by (auto dest: consistent_keyed)
  show ?thesis
  proof (cases "singletons c (hash_code Base)")
    case None
    with run SingletonCreator show ?thesis
      by (auto simp: GetSingletonCreator_def GetTransientCreator_def CreateInstance_def Let_def
            make_shared_def log_def emplace_def split: option.splits prod.splits)
  next
    case (Some a)
    with run SingletonCreator have "a = Any t h"
      by (auto simp: GetSingletonCreator_def Let_def split: option.splits prod.splits)
    with Some ok reg k SingletonCreator show ?thesis by (auto dest: consistent_cached)
  qed
qed (use run in \<open>auto simp: GetTransientCreator_def split: prod.splits option.splits sum.splits\<close>)

subsection \<open>What a singleton creator does on a resolution\<close>



subsection \<open>Unregistered and null services\<close>

text \<open>
  Claim C3. For a type with no entry under its key, \<^verbatim>\<open>GetService\<close> returns the null handle,
  throws nothing and changes nothing, and \<^verbatim>\<open>GetRequiredService\<close> throws a
  \<^verbatim>\<open>std::runtime_error\<close> whose message ends in the name of the type.
\<close>

theorem unregistered_service:
  assumes "services c (hash_code T) = None"
  shows "GetService T (g, c) = (Inr Null, g, c) \<and>
         GetRequiredService T (g, c) =
           (Inl (RuntimeError (''No implementation registered for '' @ name T)), g, c)"
  using assms by (simp add: GetService_def GetRequiredService_def)

theorem unregistered_service_witness:
  "services new_container (hash_code IService) = None \<and>
   GetService IService (new_program, new_container) =
     (Inr Null, new_program, new_container) \<and>
   GetRequiredService IService (new_program, new_container) =
     (Inl (RuntimeError ''No implementation registered for IService''),
      new_program, new_container)"
  using unregistered_service [of new_container IService new_program]
  by (simp add: new_container_def IService_def)

text \<open>
  Claim C10. When the creator registered for \<open>T\<close> yields a null pointer, \<^verbatim>\<open>GetService\<close>
  returns the null handle and \<^verbatim>\<open>GetRequiredService\<close> throws the error "No implementation
  registered for" \<open>T\<close>: the caller sees what it sees from a container that has no
  registration at all.
\<close>

theorem null_creator_as_unregistered:
  assumes "services c (hash_code T) = Some cr"
      and "invoke cr (g, c) = (Inr (Any T Null), s')"
  shows "GetService T (g, c) = (Inr Null, s') \<and>
         GetRequiredService T (g, c) =
           (Inl (RuntimeError (''No implementation registered for '' @ name T)), s') \<and>
         fst (GetService T (g, c)) = fst (GetService T (g, new_container)) \<and>
         fst (GetRequiredService T (g, c)) = fst (GetRequiredService T (g, new_container))"
  using assms by (simp add: GetService_def GetRequiredService_def new_container_def)

theorem null_creator_as_unregistered_witness:
  "services (snd (AddTransient_creator IService ReturnsNull (new_program, new_container)))
     (hash_code IService) = Some (TransientFactory IService ReturnsNull) \<and>
   invoke (TransientFactory IService ReturnsNull)
     (AddTransient_creator IService ReturnsNull (new_program, new_container)) =
     (Inr (Any IService Null), log (FactoryCalled IService ReturnsNull) new_program,
      snd (AddTransient_creator IService ReturnsNull (new_program, new_container))) \<and>
   fst (GetService IService
     (AddTransient_creator IService ReturnsNull (new_program, new_container))) = Inr Null \<and>
   fst (GetRequiredService IService
     (AddTransient_creator IService ReturnsNull (new_program, new_container))) =
     Inl (RuntimeError ''No implementation registered for IService'')"
  using null_creator_as_unregistered
    [of "snd (AddTransient_creator IService ReturnsNull (new_program, new_container))"
        IService "TransientFactory IService ReturnsNull" new_program
        "(log (FactoryCalled IService ReturnsNull) new_program,
          snd (AddTransient_creator IService ReturnsNull (new_program, new_container)))"]
  by (simp add: registration_defs resolution_defs new_container_def IService_def)

subsection \<open>Registration\<close>

text \<open>
  Claim C6. \<^verbatim>\<open>_services\<close> holds at most one creator per key, and the first registration
  for a key wins: a later registration for the same key changes nothing, neither the
  stored creator nor any other key nor the outcome of any later resolution. A resolution
  of the type after both registrations is the call of the creator that was registered
  first, followed by the cast.
\<close>

theorem first_registration_wins:
  assumes "services (snd s) (hash_code (registered_type r1)) = None"
      and "hash_code (registered_type r2) = hash_code (registered_type r1)"
  shows "services (snd (register r1 s)) (hash_code (registered_type r1)) =
           Some (registered_creator r1) \<and>
         register r2 (register r1 s) = register r1 s \<and>
         dom (services (snd (register r2 (register r1 s)))) =
           insert (hash_code (registered_type r1)) (dom (services (snd s))) \<and>
         GetService T (register r2 (register r1 s)) = GetService T (register r1 s) \<and>
         GetService (registered_type r1) (register r2 (register r1 s)) =
           (case invoke (registered_creator r1) (register r1 s) of
              (Inl e, s') \<Rightarrow> (Inl e, s')
            | (Inr a, s') \<Rightarrow> (any_cast (registered_type r1) a, s'))"
  using assms by (auto simp: register_eq AddService_def emplace_def Let_def GetService_def)

theorem first_registration_wins_witness:
  "services (snd (new_program, new_container))
     (hash_code (registered_type (Call_AddSingleton IService ServiceA))) = None \<and>
   hash_code (registered_type (Call_AddTransient IService ServiceB)) =
     hash_code (registered_type (Call_AddSingleton IService ServiceA)) \<and>
   services (snd (register (Call_AddTransient IService ServiceB)
       (register (Call_AddSingleton IService ServiceA) (new_program, new_container))))
     (hash_code IService) = Some (SingletonCreator IService ServiceA) \<and>
   register (Call_AddTransient IService ServiceB)
       (register (Call_AddSingleton IService ServiceA) (new_program, new_container)) =
     register (Call_AddSingleton IService ServiceA) (new_program, new_container) \<and>
   fst (GetService IService (register (Call_AddTransient IService ServiceB)
       (register (Call_AddSingleton IService ServiceA) (new_program, new_container)))) =
     Inr (Ptr 0) \<and>
   heap (fst (snd (GetService IService (register (Call_AddTransient IService ServiceB)
       (register (Call_AddSingleton IService ServiceA) (new_program, new_container)))))) 0 =
     Some (Obj ServiceA DefaultCtor) \<and>
   trace (fst (snd (GetService IService (register (Call_AddTransient IService ServiceB)
       (register (Call_AddSingleton IService ServiceA) (new_program, new_container)))))) =
     [CreateInstanceCalled IService ServiceA]"
  using first_registration_wins
    [of "(new_program, new_container)" "Call_AddSingleton IService ServiceA"
        "Call_AddTransient IService ServiceB" IService]
  by (simp add: registration_defs resolution_defs new_container_def new_program_def
        IService_def)



subsection \<open>Transient lifetime\<close>

text \<open>
  Claim C2, the counterexample. A transient factory that returns a pointer it holds is
  called on both resolutions and both return the same instance.
\<close>

theorem transient_factory_same_handle:
  "results (run_calls
     [Register 0 (Call_AddTransient_creator ServiceA (ReturnsHeld (Ptr 0))),
      Resolve 0 ServiceA, Resolve 0 ServiceA] with_instance) =
     Some [Inr (Ptr 0), Inr (Ptr 0)] \<and>
   final_trace (run_calls
     [Register 0 (Call_AddTransient_creator ServiceA (ReturnsHeld (Ptr 0))),
      Resolve 0 ServiceA, Resolve 0 ServiceA] with_instance) =
     Some [FactoryCalled ServiceA (ReturnsHeld (Ptr 0)),
           FactoryCalled ServiceA (ReturnsHeld (Ptr 0))]"
  by (simp add: registration_defs resolution_defs new_program_def new_container_def
        ServiceA_def with_instance_def results_def final_trace_def)

text \<open>
  Claim C2, as amended. Every resolution of a type registered with transient lifetime
  runs its creation strategy again: the producer's event is added to the trace each
  time. When the strategy ends in an allocation (registration by concrete type, from an
  instance, or by a factory that returns \<^verbatim>\<open>std::make_shared\<close>), two consecutive resolutions
  return two different non-null handles.
\<close>

theorem transient_resolutions:
  assumes reg: "services c (hash_code T) = Some cr"
      and ctype: "creator_type cr = T"
      and tr: "is_transient cr"
  shows "(\<forall>r g' c'. GetService T (g, c) = (r, g', c') \<longrightarrow>
            (\<exists>e. producer_event cr = Some e \<and> trace g' = trace g @ [e])) \<and>
         (allocating cr \<longrightarrow>
            (\<forall>h1 h2 s1 s2.
               GetService T (g, c) = (Inr h1, s1) \<and> GetService T s1 = (Inr h2, s2)
               \<longrightarrow> h1 \<noteq> Null \<and> h2 \<noteq> Null \<and> h1 \<noteq> h2)) \<and>
         (allocating cr \<longrightarrow>
            (\<exists>s1 s2. GetService T (g, c) = (Inr (Ptr (fresh g)), s1) \<and>
                     GetService T s1 = (Inr (Ptr (Suc (fresh g))), s2)))"
proof -
  have runs_afresh: "\<exists>e. producer_event cr = Some e \<and> trace g' = trace g @ [e]"
    if run: "GetService T (g, c) = (r, g', c')" for r g' c'
  proof -
    from run reg obtain r0 where "invoke cr (g, c) = (r0, g', c')"
      by (auto simp: GetService_def split: sum.splits prod.splits)
    then show ?thesis using invoke_transient_runs [OF tr] by blast
  qed
  have both_return:
    "\<exists>g1 g2. GetService T (g, c) = (Inr (Ptr (fresh g)), g1, c) \<and>
              GetService T (g1, c) = (Inr (Ptr (Suc (fresh g))), g2, c)"
    if alloc: "allocating cr"
  proof -
    from allocating_returns [OF reg ctype alloc, of g]
    obtain g1 where run1: "GetService T (g, c) = (Inr (Ptr (fresh g)), g1, c)"
      and fr: "fresh g1 = Suc (fresh g)" by blast
    from allocating_returns [OF reg ctype alloc, of g1]
    obtain g2 where "GetService T (g1, c) = (Inr (Ptr (fresh g1)), g2, c)" by blast
    with run1 fr show ?thesis by auto
  qed
  have distinct_handles: "h1 \<noteq> Null \<and> h2 \<noteq> Null \<and> h1 \<noteq> h2"
    if alloc: "allocating cr"
      and runs: "GetService T (g, c) = (Inr h1, s1) \<and> GetService T s1 = (Inr h2, s2)"
    for h1 h2 s1 s2
    using both_return [OF alloc] runs by auto
  show ?thesis
    using runs_afresh distinct_handles both_return by blast
qed

theorem transient_resolutions_witness:
  "services (snd (AddTransient IService ServiceA (new_program, new_container)))
     (hash_code IService) = Some (TransientCreator IService ServiceA) \<and>
   creator_type (TransientCreator IService ServiceA) = IService \<and>
   is_transient (TransientCreator IService ServiceA) \<and>
   allocating (TransientCreator IService ServiceA) \<and>
   (\<exists>s1 s2.
      GetService IService (AddTransient IService ServiceA (new_program, new_container)) =
        (Inr (Ptr 0), s1) \<and>
      GetService IService s1 = (Inr (Ptr (Suc 0)), s2))"
  using transient_resolutions
    [of "snd (AddTransient IService ServiceA (new_program, new_container))" IService
        "TransientCreator IService ServiceA" new_program]
  by (simp add: registration_defs emplace_def new_container_def new_program_def)

subsection \<open>Type-erased storage\<close>

text \<open>
  Claim C9. The narrowing of the stored \<^verbatim>\<open>std::any\<close> is checked: whenever the creator
  found under the key of \<open>Base\<close> returns a value, \<^verbatim>\<open>GetService\<close> returns the pointer it holds
  if that is a \<^verbatim>\<open>std::shared_ptr<Base>\<close> and throws \<^verbatim>\<open>std::bad_any_cast\<close> otherwise, never a
  pointer of another type. In a consistent container a creator registered for \<open>Base\<close>
  always returns a \<^verbatim>\<open>std::shared_ptr<Base>\<close>, so the cast cannot fail there.
\<close>

theorem narrowing_checked:
  assumes reg: "services c (hash_code Base) = Some cr"
      and run: "invoke cr (g, c) = (Inr (Any t h), s')"
  shows "GetService Base (g, c) = ((if t = Base then Inr h else Inl BadAnyCast), s') \<and>
         (consistent c \<and> creator_type cr = Base \<longrightarrow>
            t = Base \<and> GetService Base (g, c) = (Inr h, s'))"
  using reg run invoke_type [OF run reg] by (simp add: GetService_def)

theorem narrowing_checked_witness:
  "services (snd (AddSingleton_instance ServiceA (Ptr 0) (new_program, new_container)))
     (hash_code ServiceA) = Some (InstanceHolder ServiceA (Ptr 0)) \<and>
   invoke (InstanceHolder ServiceA (Ptr 0))
     (AddSingleton_instance ServiceA (Ptr 0) (new_program, new_container)) =
     (Inr (Any ServiceA (Ptr 0)),
      AddSingleton_instance ServiceA (Ptr 0) (new_program, new_container)) \<and>
   consistent (snd (AddSingleton_instance ServiceA (Ptr 0) (new_program, new_container))) \<and>
   creator_type (InstanceHolder ServiceA (Ptr 0)) = ServiceA \<and>
   GetService ServiceA
     (AddSingleton_instance ServiceA (Ptr 0) (new_program, new_container)) =
     (Inr (Ptr 0), AddSingleton_instance ServiceA (Ptr 0) (new_program, new_container))"
proof -
  let ?s = "AddSingleton_instance ServiceA (Ptr 0) (new_program, new_container)"
  have ok: "consistent (snd ?s)"
    using consistent_register [of "(new_program, new_container)"
        "Call_AddSingleton_instance ServiceA (Ptr 0)"]
    by (simp add: consistent_new_container)
  have reg: "services (snd ?s) (hash_code ServiceA) = Some (InstanceHolder ServiceA (Ptr 0))"
    by (simp add: registration_defs emplace_def new_container_def)
  have run: "invoke (InstanceHolder ServiceA (Ptr 0)) (new_program, snd ?s) =
               (Inr (Any ServiceA (Ptr 0)), ?s)"
    by (simp add: registration_defs)
  have s: "?s = (new_program, snd ?s)"
    by (simp add: registration_defs)
  show ?thesis
    using narrowing_checked [OF reg run] ok reg run s by simp
qed

text \<open>
  The failing branch of the cast is taken when two types share a hash code: \<open>ILogger\<close> was
  never registered, its key is taken by \<open>IService\<close>, and resolving it throws.
\<close>

lemma colliding_types_bad_cast:
  "results (run_calls
     [Register 0 (Call_AddTransient IService ServiceA), Resolve 0 ILogger] one_container) =
     Some [Inl BadAnyCast]"
  by (simp add: registration_defs resolution_defs new_program_def new_container_def
        IService_def ServiceA_def ILogger_def one_container_def results_def)

subsection \<open>Singletons realised once\<close>

text \<open>
  When a resolution returns \<open>r\<close> and leaves the state as it was, so does every repetition.
\<close>

lemma consecutive_unchanged:
  assumes "GetService T s = (r, s)"
  shows "consecutive N T s = (replicate N r, s)"
  using assms by (induction N) simp_all

lemma consecutive_after_first:
  assumes "GetService T s = (r, s1)" and "GetService T s1 = (r, s1)"
  shows "consecutive (Suc N) T s = (replicate (Suc N) r, s1)"
  using assms by (simp add: consecutive_unchanged)

text \<open>
  Registration by concrete type keeps the instance in \<^verbatim>\<open>_singletons\<close> of the container:
  from a container that has not realised \<open>Base\<close>, any number of resolutions return the one
  instance, \<^verbatim>\<open>CreateInstance\<close> runs once, and later resolutions change nothing.
\<close>

lemma singleton_by_type_cached:
  assumes "services c (hash_code Base) = Some (SingletonCreator Base Derived)"
      and "singletons c (hash_code Base) = Some (Any Base h)"
  shows "GetService Base (g, c) = (Inr h, g, c)"
  using assms by (simp add: GetService_def GetSingletonCreator_def)

lemma singleton_by_type_once:
  assumes reg: "services c (hash_code Base) = Some (SingletonCreator Base Derived)"
      and unrealised: "singletons c (hash_code Base) = None"
  shows "\<exists>g' c'.
           consecutive (Suc N) Base (g, c) = (replicate (Suc N) (Inr (Ptr (fresh g))), g', c') \<and>
           trace g' = trace g @ [CreateInstanceCalled Base Derived] \<and>
           singletons c' (hash_code Base) = Some (Any Base (Ptr (fresh g))) \<and>
           services c' = services c"
proof -
  let ?g' = "snd (CreateInstance Base Derived g)"
  let ?c' = "c\<lparr>singletons := (singletons c)(hash_code Base \<mapsto> Any Base (Ptr (fresh g)))\<rparr>"
  have first: "GetService Base (g, c) = (Inr (Ptr (fresh g)), ?g', ?c')"
    using reg unrealised
    by (simp add: GetService_def GetSingletonCreator_def GetTransientCreator_def
          CreateInstance_def make_shared_def log_def emplace_def)
  have again: "GetService Base (?g', ?c') = (Inr (Ptr (fresh g)), ?g', ?c')"
    using reg by (intro singleton_by_type_cached) simp_all
  have "trace ?g' = trace g @ [CreateInstanceCalled Base Derived]"
    by (simp add: CreateInstance_def make_shared_def log_def)
  with consecutive_after_first [OF first again] show ?thesis by auto
qed

text \<open>Registration of an instance: every resolution returns it and nothing else happens.\<close>

lemma singleton_instance_always:
  assumes "services c (hash_code Type) = Some (InstanceHolder Type p)"
  shows "consecutive N Type (g, c) = (replicate N (Inr p), g, c)"
  using assms by (intro consecutive_unchanged) (simp add: GetService_def)

text \<open>
  Registration of a factory keeps the instance in the function-local static. From a
  program in which the slot of \<open>Type\<close> is not initialised, the factory runs once and every
  resolution returns what it produced. Once the slot is initialised, by whichever
  container, a resolution returns its content and runs nothing.
\<close>

lemma singleton_factory_initialised:
  assumes "services c (hash_code Type) = Some (SingletonFactory Type f)"
      and "statics g (FactorySlot Type) = Some h"
  shows "GetService Type (g, c) = (Inr h, g, c)"
  using assms by (simp add: GetService_def)

lemma singleton_factory_once:
  assumes reg: "services c (hash_code Type) = Some (SingletonFactory Type f)"
      and uninitialised: "statics g (FactorySlot Type) = None"
  shows "\<exists>h g'.
           consecutive (Suc N) Type (g, c) = (replicate (Suc N) (Inr h), g', c) \<and>
           trace g' = trace g @ [FactoryCalled Type f] \<and>
           statics g' (FactorySlot Type) = Some h"
proof -
  obtain h g1 where made: "run_factory f (log (FactoryCalled Type f) g) = (h, g1)"
    by (cases "run_factory f (log (FactoryCalled Type f) g)") auto
  let ?g' = "g1\<lparr>statics := (statics g1)(FactorySlot Type \<mapsto> h)\<rparr>"
  have first: "GetService Type (g, c) = (Inr h, ?g', c)"
    using reg uninitialised made by (simp add: GetService_def)
  have again: "GetService Type (?g', c) = (Inr h, ?g', c)"
    using reg by (intro singleton_factory_initialised) simp_all
  have "trace g1 = trace g @ [FactoryCalled Type f]"
    using run_factory_trace [OF made] by (simp add: log_def)
  with consecutive_after_first [OF first again] show ?thesis by auto
qed

text \<open>
  The slot is shared: when two containers register factories for the same type, the second
  container returns the instance the first one realised, whatever its own factory is.
\<close>

lemma singleton_factory_shared:
  assumes reg1: "services c1 (hash_code Type) = Some (SingletonFactory Type f1)"
      and reg2: "services c2 (hash_code Type) = Some (SingletonFactory Type f2)"
      and uninitialised: "statics g (FactorySlot Type) = None"
  shows "\<exists>h g1.
           GetService Type (g, c1) = (Inr h, g1, c1) \<and>
           GetService Type (g1, c2) = (Inr h, g1, c2) \<and>
           trace g1 = trace g @ [FactoryCalled Type f1]"
proof -
  obtain h g0 where made: "run_factory f1 (log (FactoryCalled Type f1) g) = (h, g0)"
    by (cases "run_factory f1 (log (FactoryCalled Type f1) g)") auto
  let ?g1 = "g0\<lparr>statics := (statics g0)(FactorySlot Type \<mapsto> h)\<rparr>"
  have first: "GetService Type (g, c1) = (Inr h, ?g1, c1)"
    using reg1 uninitialised made by (simp add: GetService_def)
  have second: "GetService Type (?g1, c2) = (Inr h, ?g1, c2)"
    using reg2 by (intro singleton_factory_initialised) simp_all
  have "trace g0 = trace g @ [FactoryCalled Type f1]"
    using run_factory_trace [OF made] by (simp add: log_def)
  with first second show ?thesis by auto
qed

subsection \<open>Singletons kept in function-local statics\<close>

text \<open>
  Claim C1, at the failing input. Two containers each register their own singleton
  factory for \<open>IService\<close>. After the first container has resolved the type, three
  consecutive resolutions on the second container return the first container's instance:
  the factory registered on the second container is never called, where the claim has it
  called exactly once.
\<close>

theorem singleton_factory_not_run_in_second_container:
  "results (run_calls
     (register_both_factories @
      [Resolve 0 IService, Resolve 1 IService, Resolve 1 IService, Resolve 1 IService])
     two_containers) =
     Some [Inr (Ptr 0), Inr (Ptr 0), Inr (Ptr 0), Inr (Ptr 0)] \<and>
   final_trace (run_calls
     (register_both_factories @
      [Resolve 0 IService, Resolve 1 IService, Resolve 1 IService, Resolve 1 IService])
     two_containers) =
     Some [FactoryCalled IService makeA] \<and>
   map_option (occurrences (FactoryCalled IService makeB))
     (final_trace (run_calls
       (register_both_factories @
        [Resolve 0 IService, Resolve 1 IService, Resolve 1 IService, Resolve 1 IService])
       two_containers)) = Some 0"
  by (simp add: registration_defs resolution_defs new_program_def new_container_def
        IService_def ServiceA_def ServiceB_def makeA_def makeB_def two_containers_def
        register_both_factories_def results_def final_trace_def occurrences_def)

text \<open>
  Claim C4, at the failing input. Resolved alone, the second container builds a
  \<open>ServiceB\<close> with its own factory. Resolved after the first container, it returns the
  \<open>ServiceA\<close> the first container's factory built, and its own factory does not run: the
  slot that holds the singleton belongs to the lambda, not to the container.
\<close>

theorem singleton_memo_shared_between_containers:
  "results (run_calls (register_both_factories @ [Resolve 1 IService]) two_containers) =
     Some [Inr (Ptr 0)] \<and>
   final_heap (run_calls (register_both_factories @ [Resolve 1 IService]) two_containers) 0 =
     Some (Obj ServiceB (UserArgs 2 [])) \<and>
   results (run_calls (register_both_factories @ [Resolve 0 IService, Resolve 1 IService])
     two_containers) = Some [Inr (Ptr 0), Inr (Ptr 0)] \<and>
   final_heap (run_calls (register_both_factories @ [Resolve 0 IService, Resolve 1 IService])
     two_containers) 0 = Some (Obj ServiceA (UserArgs 1 [])) \<and>
   final_trace (run_calls (register_both_factories @ [Resolve 0 IService, Resolve 1 IService])
     two_containers) = Some [FactoryCalled IService makeA]"
  by (simp add: registration_defs resolution_defs new_program_def new_container_def
        IService_def ServiceA_def ServiceB_def makeA_def makeB_def two_containers_def
        register_both_factories_def results_def final_trace_def final_heap_def)

subsection \<open>Registration from an instance\<close>

text \<open>
  Claim C5, at the failing input. The singleton registration returns the registered
  instance on every resolution. The transient registration returns a new object each
  time, but the object is not a copy of the registered one: it is built by the
  constructor of \<open>ServiceA\<close> that takes the \<^verbatim>\<open>std::shared_ptr\<close>, called with the registered
  pointer itself.
\<close>

theorem transient_instance_not_copied:
  "results (run_calls
     [Register 0 (Call_AddSingleton_instance ServiceA (Ptr 0)),
      Resolve 0 ServiceA, Resolve 0 ServiceA] with_instance) =
     Some [Inr (Ptr 0), Inr (Ptr 0)] \<and>
   results (run_calls
     [Register 0 (Call_AddTransient_instance ServiceA (Ptr 0)),
      Resolve 0 ServiceA, Resolve 0 ServiceA] with_instance) =
     Some [Inr (Ptr 1), Inr (Ptr 2)] \<and>
   final_heap (run_calls
     [Register 0 (Call_AddTransient_instance ServiceA (Ptr 0)),
      Resolve 0 ServiceA, Resolve 0 ServiceA] with_instance) 0 =
     Some (Obj ServiceA (UserArgs 42 [])) \<and>
   final_heap (run_calls
     [Register 0 (Call_AddTransient_instance ServiceA (Ptr 0)),
      Resolve 0 ServiceA, Resolve 0 ServiceA] with_instance) 1 =
     Some (Obj ServiceA (FromPtr (Ptr 0))) \<and>
   final_heap (run_calls
     [Register 0 (Call_AddTransient_instance ServiceA (Ptr 0)),
      Resolve 0 ServiceA, Resolve 0 ServiceA] with_instance) 2 =
     Some (Obj ServiceA (FromPtr (Ptr 0)))"
  by (simp add: registration_defs resolution_defs new_program_def new_container_def
        ServiceA_def with_instance_def results_def final_heap_def)

end
